theory Spec2Isabelle
  imports Complex_Main
begin

section \<open>Messages and cached data of the traffic light detector\<close>

text \<open>
  Modelled from the spec: the state enumeration of the TrafficLight message (the message
  definitions of styx_msgs are not among the sources). The detector only compares these
  values for equality.
\<close>

datatype TrafficLight_state = RED | YELLOW | GREEN | UNKNOWN

text \<open>
  The geometry messages, with the fields the detector reads. Coordinates are Python floats;
  they are modelled as reals.
\<close>

record Point =
  p_x :: real
  p_y :: real
  p_z :: real

record Quaternion =
  q_x :: real
  q_y :: real
  q_z :: real
  q_w :: real

record Pose =
  position :: Point
  orientation :: Quaternion

record PoseStamped =
  ps_pose :: Pose

record TrafficLight =
  tl_pose :: PoseStamped
  tl_state :: TrafficLight_state

type_synonym Lane = "PoseStamped list"

datatype Image = Image "nat list"

text \<open>
  The parsed \<open>/traffic_light_config\<close> parameter. The detector reads its
  \<open>stop_line_positions\<close> entry only.
\<close>

record Config =
  stop_line_positions :: "(real \<times> real) list"

subsection \<open>GroundTruthBuilder\<close>

record GroundTruthBuilder =
  red_count :: int
  yellow_count :: int
  green_count :: int
  images_dir :: string
  red_dir :: string
  yellow_dir :: string
  green_dir :: string
  written :: "(string \<times> int \<times> Image) list"

definition GroundTruthBuilder_init :: GroundTruthBuilder where
  "GroundTruthBuilder_init =
     \<lparr> red_count = 0, yellow_count = 0, green_count = 0,
       images_dir = ''/home/student/saved_images'',
       red_dir = ''/home/student/saved_images'' @ ''/red'',
       yellow_dir = ''/home/student/saved_images'' @ ''/yellow'',
       green_dir = ''/home/student/saved_images'' @ ''/green'',
       written = [] \<rparr>"

text \<open>
  \<open>save_image\<close>: the file \<open>dir/count.png\<close> that \<open>cv2.imwrite\<close> produces is
  recorded in \<open>written\<close> as the directory, the number and the image.
\<close>

definition save_image :: "GroundTruthBuilder \<Rightarrow> TrafficLight_state \<Rightarrow> Image \<Rightarrow> GroundTruthBuilder" where
  "save_image gt light img =
     (if light = RED then
        (let gt1 = gt\<lparr>red_count := red_count gt + 1\<rparr>
         in gt1\<lparr>written := written gt1 @ [(red_dir gt1, red_count gt1, img)]\<rparr>)
      else if light = YELLOW then
        (let gt1 = gt\<lparr>yellow_count := yellow_count gt + 1\<rparr>
         in gt1\<lparr>written := written gt1 @ [(yellow_dir gt1, yellow_count gt1, img)]\<rparr>)
      else if light = GREEN then
        (let gt1 = gt\<lparr>green_count := green_count gt + 1\<rparr>
         in gt1\<lparr>written := written gt1 @ [(green_dir gt1, green_count gt1, img)]\<rparr>)
      else gt)"

subsection \<open>TLDetector\<close>

text \<open>
  The fields of the detector object. \<open>upcoming_red_light_pub\<close> is the publisher of
  \<open>/traffic_waypoint\<close>: the list of the integers published so far, oldest first.
  \<open>has_image\<close> is an attribute the source creates in \<open>image_cb\<close>; nothing reads it
  before that assignment.
\<close>

record TLDetector =
  pose :: "PoseStamped option"
  waypoints :: "Lane option"
  camera_image :: "Image option"
  lights :: "TrafficLight list"
  config :: Config
  upcoming_red_light_pub :: "int list"
  state :: TrafficLight_state
  last_state :: TrafficLight_state
  last_wp :: int
  state_count :: int
  gt_builer :: GroundTruthBuilder
  has_image :: bool

definition STATE_COUNT_THRESHOLD :: int where
  "STATE_COUNT_THRESHOLD = 3"

definition MAX_LIGHTS_DISTANCE :: real where
  "MAX_LIGHTS_DISTANCE = 300"

definition MIN_LIGHTS_DISTANCE :: real where
  "MIN_LIGHTS_DISTANCE = 20"

text \<open>\<open>TLDetector.__init__\<close>, with the configuration read from the parameter server.\<close>

definition TLDetector_init :: "Config \<Rightarrow> TLDetector" where
  "TLDetector_init cfg =
     \<lparr> pose = None, waypoints = None, camera_image = None, lights = [],
       config = cfg, upcoming_red_light_pub = [],
       state = UNKNOWN, last_state = UNKNOWN, last_wp = - 1, state_count = 0,
       gt_builer = GroundTruthBuilder_init, has_image = False \<rparr>"

definition pose_cb :: "TLDetector \<Rightarrow> PoseStamped \<Rightarrow> TLDetector" where
  "pose_cb self msg = self\<lparr>pose := Some msg\<rparr>"

definition waypoints_cb :: "TLDetector \<Rightarrow> Lane \<Rightarrow> TLDetector" where
  "waypoints_cb self wps = self\<lparr>waypoints := Some wps\<rparr>"

definition traffic_cb :: "TLDetector \<Rightarrow> TrafficLight list \<Rightarrow> TLDetector" where
  "traffic_cb self msg_lights = self\<lparr>lights := msg_lights\<rparr>"

section \<open>The debounce block of \<open>image_cb\<close>\<close>

text \<open>
  Lines 123 to 132 of \<open>image_cb\<close>: the three-way branch on the freshly observed
  \<open>(light_wp, state)\<close>. Publishing appends to \<open>upcoming_red_light_pub\<close>.
\<close>

definition debounce_branch :: "TLDetector \<Rightarrow> int \<times> TrafficLight_state \<Rightarrow> TLDetector" where
  "debounce_branch self obs =
     (case obs of (light_wp, st) \<Rightarrow>
        if state self \<noteq> st then
          self\<lparr>state_count := 0, state := st\<rparr>
        else if state_count self \<ge> STATE_COUNT_THRESHOLD then
          (let light_wp1 = (if st = RED then light_wp else - 1)
           in self\<lparr>last_state := state self, last_wp := light_wp1,
                   upcoming_red_light_pub := upcoming_red_light_pub self @ [light_wp1]\<rparr>)
        else
          self\<lparr>upcoming_red_light_pub := upcoming_red_light_pub self @ [last_wp self]\<rparr>)"

text \<open>
  Lines 123 to 133: the branch, then the unconditional \<open>self.state_count += 1\<close>.
\<close>

definition debounce :: "TLDetector \<Rightarrow> int \<times> TrafficLight_state \<Rightarrow> TLDetector" where
  "debounce self obs =
     (let self1 = debounce_branch self obs
      in self1\<lparr>state_count := state_count self1 + 1\<rparr>)"

text \<open>
  Feeding a sequence of observations, one per frame: the detector after the last frame,
  and the committed waypoint \<open>last_wp\<close> after each frame.
\<close>

fun feed :: "TLDetector \<Rightarrow> (int \<times> TrafficLight_state) list \<Rightarrow> TLDetector" where
  "feed self [] = self"
| "feed self (obs # rest) = feed (debounce self obs) rest"

fun committed_trace :: "TLDetector \<Rightarrow> (int \<times> TrafficLight_state) list \<Rightarrow> int list" where
  "committed_trace self [] = []"
| "committed_trace self (obs # rest) =
     (let self1 = debounce self obs in last_wp self1 # committed_trace self1 rest)"

section \<open>Selecting the light ahead\<close>

text \<open>The local function \<open>dist\<close> of \<open>get_closest_light\<close>.\<close>

definition dist_pts :: "Point \<Rightarrow> Point \<Rightarrow> real" where
  "dist_pts p1 p2 = sqrt ((p_x p2 - p_x p1)\<^sup>2 + (p_y p2 - p_y p1)\<^sup>2)"

text \<open>\<open>math.atan2 (y, x)\<close> on the reals: the angle of the point \<open>(x, y)\<close>.\<close>

definition atan2 :: "real \<Rightarrow> real \<Rightarrow> real" where
  "atan2 y x =
     (if 0 < x then arctan (y / x)
      else if x < 0 then (if 0 \<le> y then arctan (y / x) + pi else arctan (y / x) - pi)
      else if 0 < y then pi / 2
      else if y < 0 then - (pi / 2)
      else 0)"

text \<open>
  The body of the loop over \<open>lights\<close> (lines 166 to 181), on the pair
  \<open>(result, best_distance)\<close>.
\<close>

definition closest_light_body ::
  "real \<Rightarrow> Point \<Rightarrow> TrafficLight \<Rightarrow> TrafficLight option \<times> real option
     \<Rightarrow> TrafficLight option \<times> real option" where
  "closest_light_body yaw pos light acc =
     (case acc of (result, best_distance) \<Rightarrow>
        (let lpos = position (ps_pose (tl_pose light));
             distance = dist_pts pos lpos
         in if (case best_distance of None \<Rightarrow> False | Some b \<Rightarrow> distance > b) then
              (result, best_distance)
            else if distance < MAX_LIGHTS_DISTANCE \<and> distance > MIN_LIGHTS_DISTANCE then
              (let heading = atan2 (p_y lpos - p_y pos) (p_x lpos - p_x pos);
                   angle = \<bar>yaw - heading\<bar>
               in if angle < pi / 9 then (Some light, Some distance)
                  else (result, best_distance))
            else (result, best_distance)))"

text \<open>
  \<open>get_closest_light\<close>. The conversion \<open>tf.transformations.euler_from_quaternion\<close>
  belongs to an external library and is a parameter; it returns (roll, pitch, yaw).
\<close>

definition get_closest_light ::
  "(Quaternion \<Rightarrow> real \<times> real \<times> real) \<Rightarrow> PoseStamped option \<Rightarrow> TrafficLight list option
     \<Rightarrow> TrafficLight option" where
  "get_closest_light euler_from_quaternion p ls =
     (case p of
        None \<Rightarrow> None
      | Some ps \<Rightarrow>
          (case ls of
             None \<Rightarrow> None
           | Some lts \<Rightarrow>
               (let euler_orientation = euler_from_quaternion (orientation (ps_pose ps));
                    yaw = snd (snd euler_orientation)
                in fst (fold (closest_light_body yaw (position (ps_pose ps))) lts (None, None)))))"

text \<open>
  The yaw that \<open>get_closest_light\<close> works with, and the two tests a light must pass to
  be kept: distance strictly between the two bounds, bearing within \<open>pi / 9\<close> of the yaw.
\<close>

definition yaw_of :: "(Quaternion \<Rightarrow> real \<times> real \<times> real) \<Rightarrow> PoseStamped \<Rightarrow> real" where
  "yaw_of euler_from_quaternion ps = snd (snd (euler_from_quaternion (orientation (ps_pose ps))))"

definition bearing :: "Point \<Rightarrow> TrafficLight \<Rightarrow> real" where
  "bearing pos light =
     atan2 (p_y (position (ps_pose (tl_pose light))) - p_y pos)
           (p_x (position (ps_pose (tl_pose light))) - p_x pos)"

definition light_dist :: "Point \<Rightarrow> TrafficLight \<Rightarrow> real" where
  "light_dist pos light = dist_pts pos (position (ps_pose (tl_pose light)))"

definition candidate :: "real \<Rightarrow> Point \<Rightarrow> TrafficLight \<Rightarrow> bool" where
  "candidate yaw pos light \<longleftrightarrow>
     light_dist pos light < MAX_LIGHTS_DISTANCE \<and> MIN_LIGHTS_DISTANCE < light_dist pos light
     \<and> \<bar>yaw - bearing pos light\<bar> < pi / 9"

section \<open>Locating the stop waypoint and processing a frame\<close>

definition get_closest_waypoint :: "TLDetector \<Rightarrow> Pose \<Rightarrow> int" where
  "get_closest_waypoint self p = 0"

datatype error = NameError string

text \<open>
  \<open>process_traffic_lights\<close>. The local \<open>light\<close> is \<open>None\<close> and nothing assigns it
  again. The branch under \<open>if light\<close> calls \<open>get_light_state\<close> and then reads the name
  \<open>light_wp\<close>, which the function never binds, so the branch could only end in a
  \<open>NameError\<close>. The result is the returned pair and the detector as the call leaves it.
\<close>

definition process_traffic_lights ::
  "TLDetector \<Rightarrow> error + ((int \<times> TrafficLight_state) \<times> TLDetector)" where
  "process_traffic_lights self =
     (let light = (None :: TrafficLight option);
          stop_lines = stop_line_positions (config self);
          car_position = (case pose self of
                            Some ps \<Rightarrow> Some (get_closest_waypoint self (ps_pose ps))
                          | None \<Rightarrow> None)
      in case light of
           Some l \<Rightarrow> Inl (NameError ''light_wp'')
         | None \<Rightarrow> Inr ((- 1, UNKNOWN), self\<lparr>waypoints := None\<rparr>))"

text \<open>
  \<open>image_cb\<close>: cache the frame, select a light for the dataset capture, process the
  frame and run the debounce block on the pair it returns. The conversion
  \<open>imgmsg_to_cv2\<close> of the frame belongs to an external library; the captured image is
  recorded as the frame itself.
\<close>

definition image_cb ::
  "(Quaternion \<Rightarrow> real \<times> real \<times> real) \<Rightarrow> TLDetector \<Rightarrow> Image \<Rightarrow> error + TLDetector" where
  "image_cb euler_from_quaternion self msg =
     (let self1 = self\<lparr>has_image := True, camera_image := Some msg\<rparr>;
          light = get_closest_light euler_from_quaternion (pose self1) (Some (lights self1));
          self2 = (case light of
                     Some l \<Rightarrow> self1\<lparr>gt_builer := save_image (gt_builer self1) (tl_state l) msg\<rparr>
                   | None \<Rightarrow> self1)
      in case process_traffic_lights self2 of
           Inl e \<Rightarrow> Inl e
         | Inr ((light_wp, st), self3) \<Rightarrow> Inr (debounce self3 (light_wp, st)))"

text \<open>
  The node runs its callbacks one at a time, in the order the messages arrive
  (\<open>rospy.spin\<close>). A run of the node is the list of the messages it receives: a pose,
  a route, the lights, or a camera frame; \<open>dispatch\<close> calls the subscribed callback and
  \<open>spin\<close> handles the messages in order, starting from the detector \<open>__init__\<close> builds.
  \<open>frames\<close> counts the camera frames of a run.
\<close>

datatype event =
    PoseMsg PoseStamped
  | WaypointsMsg Lane
  | LightsMsg "TrafficLight list"
  | ImageMsg Image

fun dispatch ::
  "(Quaternion \<Rightarrow> real \<times> real \<times> real) \<Rightarrow> TLDetector \<Rightarrow> event \<Rightarrow> error + TLDetector" where
  "dispatch efq self (PoseMsg msg) = Inr (pose_cb self msg)"
| "dispatch efq self (WaypointsMsg wps) = Inr (waypoints_cb self wps)"
| "dispatch efq self (LightsMsg ls) = Inr (traffic_cb self ls)"
| "dispatch efq self (ImageMsg msg) = image_cb efq self msg"

fun spin ::
  "(Quaternion \<Rightarrow> real \<times> real \<times> real) \<Rightarrow> TLDetector \<Rightarrow> event list \<Rightarrow> error + TLDetector" where
  "spin efq self [] = Inr self"
| "spin efq self (ev # evs) =
     (case dispatch efq self ev of Inl e \<Rightarrow> Inl e | Inr self1 \<Rightarrow> spin efq self1 evs)"

fun frames :: "event list \<Rightarrow> nat" where
  "frames [] = 0"
| "frames (ImageMsg msg # evs) = Suc (frames evs)"
| "frames (ev # evs) = frames evs"

section \<open>Auxiliary notions for the statements\<close>

text \<open>
  The invariant of the loop of \<open>get_closest_light\<close> after the lights \<open>xs\<close>: either
  nothing is kept and no light seen so far passes the two tests, or the kept light passes
  them, \<open>best_distance\<close> is its distance, no earlier passing light is closer and every
  later passing light is strictly farther.
\<close>

definition scan_inv :: "real \<Rightarrow> Point \<Rightarrow> TrafficLight list \<Rightarrow> TrafficLight option \<times> real option \<Rightarrow> bool" where
  "scan_inv yaw pos xs acc \<longleftrightarrow>
     (acc = (None, None) \<and> (\<forall>c\<in>set xs. \<not> candidate yaw pos c)) \<or>
     (\<exists>l pre post. acc = (Some l, Some (light_dist pos l)) \<and> xs = pre @ l # post \<and>
        candidate yaw pos l \<and>
        (\<forall>c\<in>set pre. candidate yaw pos c \<longrightarrow> light_dist pos l \<le> light_dist pos c) \<and>
        (\<forall>c\<in>set post. candidate yaw pos c \<longrightarrow> light_dist pos l < light_dist pos c))"

text \<open>
  A scene for the examples: the vehicle at the origin, a conversion that reads every
  orientation as yaw 0 (heading along the x axis), lights placed by their coordinates,
  and a configuration with one stop line.
\<close>

definition euler_east :: "Quaternion \<Rightarrow> real \<times> real \<times> real" where
  "euler_east q = (0, 0, 0)"

definition origin_pose :: PoseStamped where
  "origin_pose = \<lparr>ps_pose = \<lparr>position = \<lparr>p_x = 0, p_y = 0, p_z = 0\<rparr>,
                              orientation = \<lparr>q_x = 0, q_y = 0, q_z = 0, q_w = 1\<rparr>\<rparr>\<rparr>"

definition light_at :: "real \<Rightarrow> real \<Rightarrow> TrafficLight_state \<Rightarrow> TrafficLight" where
  "light_at x y st = \<lparr>tl_pose = \<lparr>ps_pose = \<lparr>position = \<lparr>p_x = x, p_y = y, p_z = 0\<rparr>,
                                  orientation = \<lparr>q_x = 0, q_y = 0, q_z = 0, q_w = 1\<rparr>\<rparr>\<rparr>,
                      tl_state = st\<rparr>"

definition example_config :: Config where
  "example_config = \<lparr>stop_line_positions = [(90, 0)]\<rparr>"

section \<open>Properties of the debounce block\<close>

lemma debounce_change:
  "state self \<noteq> st \<Longrightarrow> debounce self (w, st) = self\<lparr>state_count := 1, state := st\<rparr>"
  by (simp add: debounce_def debounce_branch_def)

lemma debounce_hold:
  "state self = st \<Longrightarrow> state_count self < 3 \<Longrightarrow>
   debounce self (w, st) =
     self\<lparr>upcoming_red_light_pub := upcoming_red_light_pub self @ [last_wp self],
          state_count := state_count self + 1\<rparr>"
  by (simp add: debounce_def debounce_branch_def STATE_COUNT_THRESHOLD_def)

lemma debounce_commit:
  "state self = st \<Longrightarrow> 3 \<le> state_count self \<Longrightarrow>
   debounce self (w, st) =
     self\<lparr>last_state := st, last_wp := (if st = RED then w else - 1),
          upcoming_red_light_pub := upcoming_red_light_pub self @ [if st = RED then w else - 1],
          state_count := state_count self + 1\<rparr>"
  by (simp add: debounce_def debounce_branch_def STATE_COUNT_THRESHOLD_def Let_def)

lemma feed6:
  "feed (TLDetector_init cfg) [(w1, RED), (w2, RED), (w3, GREEN), (w4, RED), (w5, RED), (w6, RED)]
   = (TLDetector_init cfg)\<lparr>state := RED, state_count := 3, upcoming_red_light_pub := [- 1, - 1, - 1]\<rparr>"
  by (simp add: TLDetector_init_def debounce_change debounce_hold)

lemma debounce_waypoints: "waypoints (debounce self obs) = waypoints self"
  by (cases obs) (simp add: debounce_def debounce_branch_def Let_def)

section \<open>Properties of the light selection\<close>

lemma closest_light_body_eq:
  "closest_light_body yaw pos x (r, b) =
     (if candidate yaw pos x \<and> (case b of None \<Rightarrow> True | Some d \<Rightarrow> light_dist pos x \<le> d)
      then (Some x, Some (light_dist pos x)) else (r, b))"
  by (auto simp: closest_light_body_def candidate_def light_dist_def bearing_def Let_def
           split: option.splits)

lemma scan_invI_some:
  "acc = (Some l, Some (light_dist pos l)) \<Longrightarrow> xs = pre @ l # post \<Longrightarrow> candidate yaw pos l \<Longrightarrow>
   (\<forall>c\<in>set pre. candidate yaw pos c \<longrightarrow> light_dist pos l \<le> light_dist pos c) \<Longrightarrow>
   (\<forall>c\<in>set post. candidate yaw pos c \<longrightarrow> light_dist pos l < light_dist pos c) \<Longrightarrow>
   scan_inv yaw pos xs acc"
  unfolding scan_inv_def by blast

lemma scan_inv_step:
  assumes "scan_inv yaw pos xs acc"
  shows "scan_inv yaw pos (xs @ [x]) (closest_light_body yaw pos x acc)"
proof -
  from assms consider
      (none) "acc = (None, None)" "\<forall>c\<in>set xs. \<not> candidate yaw pos c"
    | (some) l pre post where "acc = (Some l, Some (light_dist pos l))" "xs = pre @ l # post"
        "candidate yaw pos l"
        "\<forall>c\<in>set pre. candidate yaw pos c \<longrightarrow> light_dist pos l \<le> light_dist pos c"
        "\<forall>c\<in>set post. candidate yaw pos c \<longrightarrow> light_dist pos l < light_dist pos c"
    unfolding scan_inv_def by blast
  then show ?thesis
  proof cases
    case none
    show ?thesis
    proof (cases "candidate yaw pos x")
      case True
      have b: "closest_light_body yaw pos x acc = (Some x, Some (light_dist pos x))"
        using none True by (simp add: closest_light_body_eq)
      show ?thesis
      proof (rule scan_invI_some[where l = x and pre = xs and post = "[]"])
        show "closest_light_body yaw pos x acc = (Some x, Some (light_dist pos x))" by (rule b)
        show "xs @ [x] = xs @ [x]" by simp
        show "candidate yaw pos x" by (rule True)
        show "\<forall>c\<in>set xs. candidate yaw pos c \<longrightarrow> light_dist pos x \<le> light_dist pos c"
          using none(2) by simp
        show "\<forall>c\<in>set []. candidate yaw pos c \<longrightarrow> light_dist pos x < light_dist pos c" by simp
      qed
    next
      case False
      have b: "closest_light_body yaw pos x acc = (None, None)"
        using none False by (simp add: closest_light_body_eq)
      have "\<forall>c\<in>set (xs @ [x]). \<not> candidate yaw pos c" using none(2) False by simp
      then show ?thesis unfolding scan_inv_def b by blast
    qed
  next
    case some
    show ?thesis
    proof (cases "candidate yaw pos x \<and> light_dist pos x \<le> light_dist pos l")
      case True
      have b: "closest_light_body yaw pos x acc = (Some x, Some (light_dist pos x))"
        using some(1) True by (simp add: closest_light_body_eq)
      have all: "\<forall>c\<in>set xs. candidate yaw pos c \<longrightarrow> light_dist pos x \<le> light_dist pos c"
      proof (intro ballI impI)
        fix c assume c: "c \<in> set xs" "candidate yaw pos c"
        then have "c \<in> set pre \<or> c = l \<or> c \<in> set post" using some(2) by auto
        then have "light_dist pos l \<le> light_dist pos c"
          using some(4,5) c(2) by fastforce
        then show "light_dist pos x \<le> light_dist pos c" using True by linarith
      qed
      show ?thesis
      proof (rule scan_invI_some[where l = x and pre = xs and post = "[]"])
        show "closest_light_body yaw pos x acc = (Some x, Some (light_dist pos x))" by (rule b)
        show "xs @ [x] = xs @ [x]" by simp
        show "candidate yaw pos x" using True by simp
        show "\<forall>c\<in>set xs. candidate yaw pos c \<longrightarrow> light_dist pos x \<le> light_dist pos c"
          by (rule all)
        show "\<forall>c\<in>set []. candidate yaw pos c \<longrightarrow> light_dist pos x < light_dist pos c" by simp
      qed
    next
      case False
      have b: "closest_light_body yaw pos x acc = (Some l, Some (light_dist pos l))"
        using some(1) False by (auto simp: closest_light_body_eq)
      show ?thesis
      proof (rule scan_invI_some[where l = l and pre = pre and post = "post @ [x]"])
        show "closest_light_body yaw pos x acc = (Some l, Some (light_dist pos l))" by (rule b)
        show "xs @ [x] = pre @ l # post @ [x]" using some(2) by simp
        show "candidate yaw pos l" by (rule some(3))
        show "\<forall>c\<in>set pre. candidate yaw pos c \<longrightarrow> light_dist pos l \<le> light_dist pos c"
          by (rule some(4))
        show "\<forall>c\<in>set (post @ [x]). candidate yaw pos c \<longrightarrow> light_dist pos l < light_dist pos c"
          using some(5) False by auto
      qed
    qed
  qed
qed

lemma scan_inv_fold:
  "scan_inv yaw pos xs (fold (closest_light_body yaw pos) xs (None, None))"
proof (induction xs rule: rev_induct)
  case Nil
  show ?case by (simp add: scan_inv_def)
next
  case (snoc x xs)
  then show ?case using scan_inv_step by simp
qed

lemma yaw_origin: "yaw_of euler_east origin_pose = 0"
  by (simp add: yaw_of_def euler_east_def)

lemma light_dist_ahead:
  "0 \<le> x \<Longrightarrow> light_dist (position (ps_pose origin_pose)) (light_at x 0 st) = x"
  by (simp add: light_dist_def dist_pts_def origin_pose_def light_at_def)

lemma bearing_ahead:
  "0 < x \<Longrightarrow> bearing (position (ps_pose origin_pose)) (light_at x 0 st) = 0"
  by (simp add: bearing_def atan2_def origin_pose_def light_at_def)

lemma candidate_ahead:
  "0 < x \<Longrightarrow> candidate 0 (position (ps_pose origin_pose)) (light_at x 0 st) \<longleftrightarrow> 20 < x \<and> x < 300"
  by (auto simp: candidate_def light_dist_ahead bearing_ahead MAX_LIGHTS_DISTANCE_def
      MIN_LIGHTS_DISTANCE_def)

lemma get_closest_light_fold:
  "get_closest_light efq (Some ps) (Some lts) =
     fst (fold (closest_light_body (yaw_of efq ps) (position (ps_pose ps))) lts (None, None))"
  by (simp add: get_closest_light_def yaw_of_def Let_def)

lemma tie_example:
  "get_closest_light euler_east (Some origin_pose) (Some [light_at 100 0 RED, light_at 100 0 GREEN])
     = Some (light_at 100 0 GREEN)"
  by (simp add: get_closest_light_fold yaw_origin closest_light_body_eq candidate_ahead
      light_dist_ahead)

lemma get_closest_light_Some:
  assumes "get_closest_light efq (Some ps) (Some lts) = Some l"
  shows "\<exists>pre post. lts = pre @ l # post
           \<and> candidate (yaw_of efq ps) (position (ps_pose ps)) l
           \<and> (\<forall>c\<in>set pre. candidate (yaw_of efq ps) (position (ps_pose ps)) c \<longrightarrow>
                 light_dist (position (ps_pose ps)) l \<le> light_dist (position (ps_pose ps)) c)
           \<and> (\<forall>c\<in>set post. candidate (yaw_of efq ps) (position (ps_pose ps)) c \<longrightarrow>
                 light_dist (position (ps_pose ps)) l < light_dist (position (ps_pose ps)) c)"
proof -
  let ?acc = "fold (closest_light_body (yaw_of efq ps) (position (ps_pose ps))) lts (None, None)"
  have inv: "scan_inv (yaw_of efq ps) (position (ps_pose ps)) lts ?acc"
    by (rule scan_inv_fold)
  have res: "fst ?acc = Some l" using assms by (simp add: get_closest_light_fold)
  from inv consider
      (none) "?acc = (None, None)"
    | (some) k pre post where "?acc = (Some k, Some (light_dist (position (ps_pose ps)) k))"
        "lts = pre @ k # post"
        "candidate (yaw_of efq ps) (position (ps_pose ps)) k"
        "\<forall>c\<in>set pre. candidate (yaw_of efq ps) (position (ps_pose ps)) c \<longrightarrow>
           light_dist (position (ps_pose ps)) k \<le> light_dist (position (ps_pose ps)) c"
        "\<forall>c\<in>set post. candidate (yaw_of efq ps) (position (ps_pose ps)) c \<longrightarrow>
           light_dist (position (ps_pose ps)) k < light_dist (position (ps_pose ps)) c"
    unfolding scan_inv_def by blast
  then show ?thesis
  proof cases
    case none
    with res show ?thesis by simp
  next
    case some
    from some(1) res have "k = l" by simp
    with some(2-5) show ?thesis by blast
  qed
qed

lemma get_closest_light_None:
  "get_closest_light efq (Some ps) (Some lts) = None \<longleftrightarrow>
     (\<forall>c\<in>set lts. \<not> candidate (yaw_of efq ps) (position (ps_pose ps)) c)"
proof -
  let ?acc = "fold (closest_light_body (yaw_of efq ps) (position (ps_pose ps))) lts (None, None)"
  have inv: "scan_inv (yaw_of efq ps) (position (ps_pose ps)) lts ?acc"
    by (rule scan_inv_fold)
  show ?thesis
  proof
    assume "get_closest_light efq (Some ps) (Some lts) = None"
    then have "fst ?acc = None" by (simp add: get_closest_light_fold)
    with inv show "\<forall>c\<in>set lts. \<not> candidate (yaw_of efq ps) (position (ps_pose ps)) c"
      unfolding scan_inv_def by auto
  next
    assume none: "\<forall>c\<in>set lts. \<not> candidate (yaw_of efq ps) (position (ps_pose ps)) c"
    have "fst ?acc = None"
    proof (rule ccontr)
      assume "fst ?acc \<noteq> None"
      with inv obtain l pre post where "lts = pre @ l # post"
        "candidate (yaw_of efq ps) (position (ps_pose ps)) l"
        unfolding scan_inv_def by auto
      with none show False by auto
    qed
    then show "get_closest_light efq (Some ps) (Some lts) = None"
      by (simp add: get_closest_light_fold)
  qed
qed

section \<open>The claims about the debounce block\<close>

text \<open>
  C1, as the specification states it, fails. After the six observations
  RED, RED, GREEN, RED, RED, RED from the initial state with threshold 3 the committed
  waypoint is still \<open>- 1\<close> (the stop waypoint 42 is not committed on the sixth frame), and
  the publisher has received three values, not six.
\<close>

theorem debounce_six_frames_no_commit:
  "last_wp (feed (TLDetector_init example_config)
       [(42, RED), (42, RED), (42, GREEN), (42, RED), (42, RED), (42, RED)]) = - 1
   \<and> upcoming_red_light_pub (feed (TLDetector_init example_config)
       [(42, RED), (42, RED), (42, GREEN), (42, RED), (42, RED), (42, RED)]) = [- 1, - 1, - 1]"
  unfolding feed6 by (simp add: TLDetector_init_def)

text \<open>
  C1, amended. From the initial state with threshold 3, the observations
  RED, RED, GREEN, RED, RED, RED leave the committed waypoint at \<open>- 1\<close> and every value
  published during them is \<open>- 1\<close>; the block tests the count before it increments it, so
  the commit needs a fourth consecutive RED: the committed waypoint changes exactly once,
  on the seventh observation, to that frame's waypoint, which is the value published then.
\<close>

theorem debounce_commit_on_seventh:
  "committed_trace (TLDetector_init cfg)
       [(w1, RED), (w2, RED), (w3, GREEN), (w4, RED), (w5, RED), (w6, RED), (w7, RED)]
     = [- 1, - 1, - 1, - 1, - 1, - 1, w7]
   \<and> set (upcoming_red_light_pub (feed (TLDetector_init cfg)
       [(w1, RED), (w2, RED), (w3, GREEN), (w4, RED), (w5, RED), (w6, RED)])) = {- 1}
   \<and> upcoming_red_light_pub (feed (TLDetector_init cfg)
       [(w1, RED), (w2, RED), (w3, GREEN), (w4, RED), (w5, RED), (w6, RED), (w7, RED)])
     = upcoming_red_light_pub (feed (TLDetector_init cfg)
       [(w1, RED), (w2, RED), (w3, GREEN), (w4, RED), (w5, RED), (w6, RED)]) @ [w7]"
  by (simp add: TLDetector_init_def debounce_change debounce_hold debounce_commit Let_def)

text \<open>
  C2. On every frame: when the observed state differs from the previous frame's observed
  state, the branch sets \<open>state_count\<close> to 0 (the closing increment then leaves it at 1,
  whatever it was before); and the committed fields \<open>last_state\<close> and \<open>last_wp\<close> change
  only on a frame that finds \<open>state_count\<close> at or above \<open>STATE_COUNT_THRESHOLD\<close>, with the
  observed state unchanged.
\<close>

theorem debounce_count_reset_and_commit_gate:
  "(state self \<noteq> st \<longrightarrow>
      state_count (debounce_branch self (wp, st)) = 0 \<and> state_count (debounce self (wp, st)) = 1)
   \<and> (last_state (debounce self (wp, st)) \<noteq> last_state self
        \<or> last_wp (debounce self (wp, st)) \<noteq> last_wp self \<longrightarrow>
      state self = st \<and> STATE_COUNT_THRESHOLD \<le> state_count self)"
  by (simp add: debounce_def debounce_branch_def Let_def)

text \<open>
  C2, at concrete inputs: the first RED frame after the start resets the count, and a
  detector that has counted three RED frames commits waypoint 42 on the next one.
\<close>

theorem debounce_count_reset_and_commit_gate_witness:
  "state_count (debounce_branch (TLDetector_init example_config) (42, RED)) = 0
   \<and> state_count (debounce (TLDetector_init example_config) (42, RED)) = 1
   \<and> last_wp (debounce ((TLDetector_init example_config)\<lparr>state := RED, state_count := 3\<rparr>) (42, RED)) = 42
   \<and> STATE_COUNT_THRESHOLD \<le> state_count ((TLDetector_init example_config)\<lparr>state := RED, state_count := 3\<rparr>)"
  using debounce_count_reset_and_commit_gate [of "TLDetector_init example_config" RED 42]
    debounce_count_reset_and_commit_gate
      [of "(TLDetector_init example_config)\<lparr>state := RED, state_count := 3\<rparr>" RED 42]
  by (simp add: TLDetector_init_def debounce_commit STATE_COUNT_THRESHOLD_def)

text \<open>
  The block on its own: a frame whose observed state differs from the previous one takes
  the first branch, which publishes nothing; the other two branches publish one integer.
\<close>

lemma debounce_publishes:
  "upcoming_red_light_pub (debounce self (wp, st)) =
     (if state self \<noteq> st then upcoming_red_light_pub self
      else if STATE_COUNT_THRESHOLD \<le> state_count self
        then upcoming_red_light_pub self @ [if st = RED then wp else - 1]
      else upcoming_red_light_pub self @ [last_wp self])"
  by (simp add: debounce_def debounce_branch_def Let_def)

text \<open>
  In the detector, the pair the block receives comes from \<open>process_traffic_lights\<close>, which
  reports \<open>UNKNOWN\<close> on every frame, and the observed state starts at \<open>UNKNOWN\<close>: the
  first branch is never taken.
\<close>

lemma image_cb_unknown_frame:
  assumes "state self = UNKNOWN" "last_wp self = - 1"
  shows "\<exists>self1. image_cb efq self msg = Inr self1 \<and> state self1 = UNKNOWN
           \<and> last_wp self1 = - 1
           \<and> upcoming_red_light_pub self1 = upcoming_red_light_pub self @ [- 1]"
  using assms
  by (auto simp: image_cb_def process_traffic_lights_def Let_def debounce_def
      debounce_branch_def split: option.splits)

lemma dispatch_unknown:
  assumes "state self = UNKNOWN" "last_wp self = - 1"
  shows "\<exists>self1. dispatch efq self ev = Inr self1 \<and> state self1 = UNKNOWN
           \<and> last_wp self1 = - 1
           \<and> upcoming_red_light_pub self1
               = upcoming_red_light_pub self @ replicate (frames [ev]) (- 1)"
proof (cases ev)
  case (ImageMsg msg)
  with image_cb_unknown_frame [OF assms, of efq msg] show ?thesis by simp
qed (insert assms, simp_all add: pose_cb_def waypoints_cb_def traffic_cb_def)

lemma frames_Cons: "frames (ev # evs) = frames [ev] + frames evs"
  by (cases ev) simp_all

lemma spin_unknown:
  "state self = UNKNOWN \<Longrightarrow> last_wp self = - 1 \<Longrightarrow>
   \<exists>self1. spin efq self evs = Inr self1 \<and> state self1 = UNKNOWN \<and> last_wp self1 = - 1
      \<and> upcoming_red_light_pub self1
          = upcoming_red_light_pub self @ replicate (frames evs) (- 1)"
proof (induction evs arbitrary: self)
  case Nil
  then show ?case by simp
next
  case (Cons ev evs)
  from dispatch_unknown [OF Cons.prems, of efq ev]
  obtain s1 where d: "dispatch efq self ev = Inr s1" and u: "state s1 = UNKNOWN"
    and w: "last_wp s1 = - 1"
    and p: "upcoming_red_light_pub s1
              = upcoming_red_light_pub self @ replicate (frames [ev]) (- 1)"
    by blast
  from Cons.IH [OF u w]
  obtain s2 where r: "spin efq s1 evs = Inr s2" and u2: "state s2 = UNKNOWN"
    and w2: "last_wp s2 = - 1"
    and p2: "upcoming_red_light_pub s2
              = upcoming_red_light_pub s1 @ replicate (frames evs) (- 1)"
    by blast
  have "spin efq self (ev # evs) = Inr s2" using d r by simp
  moreover have "upcoming_red_light_pub s2
      = upcoming_red_light_pub self @ replicate (frames (ev # evs)) (- 1)"
    using p p2 by (simp add: frames_Cons [of ev evs] replicate_add)
  ultimately show ?case using u2 w2 by blast
qed

text \<open>
  C3. In every run of the node, each processed camera frame publishes exactly one
  integer, the committed stop waypoint, which is \<open>- 1\<close> (no stop required): after any
  sequence of messages the publisher holds one \<open>- 1\<close> per camera frame, and the next
  frame completes and appends one more integer. No frame observes a state that differs
  from the previous frame's: the observed state is \<open>UNKNOWN\<close> throughout.
\<close>

theorem image_cb_publishes_one_integer_per_frame:
  "\<exists>self1. spin efq (TLDetector_init cfg) evs = Inr self1
     \<and> upcoming_red_light_pub self1 = replicate (frames evs) (- 1)
     \<and> state self1 = UNKNOWN
     \<and> (\<forall>msg. \<exists>self2. image_cb efq self1 msg = Inr self2
           \<and> upcoming_red_light_pub self2 = upcoming_red_light_pub self1 @ [last_wp self2]
           \<and> last_wp self2 = - 1)"
proof -
  have i: "state (TLDetector_init cfg) = UNKNOWN" "last_wp (TLDetector_init cfg) = - 1"
    "upcoming_red_light_pub (TLDetector_init cfg) = []"
    by (simp_all add: TLDetector_init_def)
  from spin_unknown [OF i(1,2), of efq evs]
  obtain s1 where r: "spin efq (TLDetector_init cfg) evs = Inr s1" and u: "state s1 = UNKNOWN"
    and w: "last_wp s1 = - 1"
    and p: "upcoming_red_light_pub s1 = replicate (frames evs) (- 1)"
    using i(3) by auto
  have "\<forall>msg. \<exists>self2. image_cb efq s1 msg = Inr self2
           \<and> upcoming_red_light_pub self2 = upcoming_red_light_pub s1 @ [last_wp self2]
           \<and> last_wp self2 = - 1"
    using image_cb_unknown_frame [OF u w, of efq] by metis
  with r u p show ?thesis by blast
qed

text \<open>
  C3, at a concrete run: a route, a pose, one light 100 ahead, then two camera frames.
\<close>

theorem image_cb_publishes_one_integer_per_frame_witness:
  "map_sum id upcoming_red_light_pub
     (spin euler_east (TLDetector_init example_config)
        [WaypointsMsg [origin_pose], PoseMsg origin_pose, LightsMsg [light_at 100 0 RED],
         ImageMsg (Image []), ImageMsg (Image [])]) = Inr [- 1, - 1]"
  using image_cb_publishes_one_integer_per_frame [of euler_east example_config
        "[WaypointsMsg [origin_pose], PoseMsg origin_pose, LightsMsg [light_at 100 0 RED],
         ImageMsg (Image []), ImageMsg (Image [])]"]
  by (auto simp: numeral_2_eq_2)


section \<open>The claims about the light selection\<close>

text \<open>
  C4. Whatever the pose and the lights, a light that \<open>get_closest_light\<close> returns lies
  at a planar distance strictly above \<open>MIN_LIGHTS_DISTANCE\<close> = 20 and strictly below
  \<open>MAX_LIGHTS_DISTANCE\<close> = 300 from the vehicle, and the absolute difference between the
  yaw and the bearing \<open>atan2 dy dx\<close> from the vehicle to the light is below \<open>pi / 9\<close>.
\<close>

theorem get_closest_light_within_bounds:
  assumes "get_closest_light efq (Some ps) ls = Some l"
  shows "20 < dist_pts (position (ps_pose ps)) (position (ps_pose (tl_pose l)))
     \<and> dist_pts (position (ps_pose ps)) (position (ps_pose (tl_pose l))) < 300
     \<and> MIN_LIGHTS_DISTANCE = 20 \<and> MAX_LIGHTS_DISTANCE = 300
     \<and> \<bar>snd (snd (efq (orientation (ps_pose ps))))
          - atan2 (p_y (position (ps_pose (tl_pose l))) - p_y (position (ps_pose ps)))
                  (p_x (position (ps_pose (tl_pose l))) - p_x (position (ps_pose ps)))\<bar> < pi / 9"
proof -
  obtain lts where ls: "ls = Some lts"
    using assms by (cases ls) (simp_all add: get_closest_light_def)
  from assms ls have "candidate (yaw_of efq ps) (position (ps_pose ps)) l"
    using get_closest_light_Some [of efq ps lts l] by blast
  then show ?thesis
    by (simp add: candidate_def light_dist_def bearing_def yaw_of_def
        MIN_LIGHTS_DISTANCE_def MAX_LIGHTS_DISTANCE_def)
qed

text \<open>
  C4, at a concrete input: the vehicle at the origin heading along the x axis and one
  light 100 ahead.
\<close>

theorem get_closest_light_within_bounds_witness:
  "get_closest_light euler_east (Some origin_pose) (Some [light_at 100 0 RED])
     = Some (light_at 100 0 RED)
   \<and> 20 < dist_pts (position (ps_pose origin_pose))
            (position (ps_pose (tl_pose (light_at 100 0 RED))))
   \<and> dist_pts (position (ps_pose origin_pose))
            (position (ps_pose (tl_pose (light_at 100 0 RED)))) < 300"
proof -
  have h: "get_closest_light euler_east (Some origin_pose) (Some [light_at 100 0 RED])
     = Some (light_at 100 0 RED)"
    by (simp add: get_closest_light_fold yaw_origin closest_light_body_eq candidate_ahead
        light_dist_ahead)
  show ?thesis
    using h get_closest_light_within_bounds [OF h] by simp
qed

text \<open>
  C5, as the specification states it, fails on ties: of two lights that both pass the
  tests at exactly the same distance, the one encountered later in the list is returned.
\<close>

theorem get_closest_light_tie_returns_later:
  "get_closest_light euler_east (Some origin_pose)
       (Some [light_at 100 0 RED, light_at 100 0 GREEN]) = Some (light_at 100 0 GREEN)
   \<and> candidate 0 (position (ps_pose origin_pose)) (light_at 100 0 RED)
   \<and> candidate 0 (position (ps_pose origin_pose)) (light_at 100 0 GREEN)
   \<and> light_dist (position (ps_pose origin_pose)) (light_at 100 0 RED)
       = light_dist (position (ps_pose origin_pose)) (light_at 100 0 GREEN)
   \<and> light_at 100 0 RED \<noteq> light_at 100 0 GREEN"
  by (simp add: tie_example candidate_ahead light_dist_ahead) (simp add: light_at_def)

text \<open>
  C5, amended. When some light passes both tests, \<open>get_closest_light\<close> returns one; the
  returned light passes both tests and has the minimum distance among the lights that do;
  and among the lights at exactly that minimum distance it is the one encountered last in
  the list: no earlier passing light is closer, every later passing light is strictly
  farther.
\<close>

theorem get_closest_light_minimal_last:
  "((\<exists>c\<in>set lts. candidate (yaw_of efq ps) (position (ps_pose ps)) c) \<longrightarrow>
      get_closest_light efq (Some ps) (Some lts) \<noteq> None)
   \<and> (get_closest_light efq (Some ps) (Some lts) = Some l \<longrightarrow>
      (\<exists>pre post. lts = pre @ l # post
         \<and> candidate (yaw_of efq ps) (position (ps_pose ps)) l
         \<and> (\<forall>c\<in>set pre. candidate (yaw_of efq ps) (position (ps_pose ps)) c \<longrightarrow>
               light_dist (position (ps_pose ps)) l \<le> light_dist (position (ps_pose ps)) c)
         \<and> (\<forall>c\<in>set post. candidate (yaw_of efq ps) (position (ps_pose ps)) c \<longrightarrow>
               light_dist (position (ps_pose ps)) l < light_dist (position (ps_pose ps)) c)))"
  using get_closest_light_Some [of efq ps lts l] get_closest_light_None [of efq ps lts]
  by blast

text \<open>
  C5 amended, at a concrete input: lights 200, 100 and 100 ahead, in this order. The
  third is returned, and it is strictly closer than the first.
\<close>

theorem get_closest_light_minimal_last_witness:
  "get_closest_light euler_east (Some origin_pose)
       (Some [light_at 200 0 RED, light_at 100 0 YELLOW, light_at 100 0 GREEN])
     = Some (light_at 100 0 GREEN)
   \<and> light_dist (position (ps_pose origin_pose)) (light_at 100 0 GREEN)
       \<le> light_dist (position (ps_pose origin_pose)) (light_at 200 0 RED)"
proof -
  let ?lts = "[light_at 200 0 RED, light_at 100 0 YELLOW, light_at 100 0 GREEN]"
  have h: "get_closest_light euler_east (Some origin_pose) (Some ?lts)
     = Some (light_at 100 0 GREEN)"
    by (simp add: get_closest_light_fold yaw_origin closest_light_body_eq candidate_ahead
        light_dist_ahead)
  have c: "candidate (yaw_of euler_east origin_pose) (position (ps_pose origin_pose))
             (light_at 200 0 RED)"
    by (simp add: yaw_origin candidate_ahead)
  have ne: "light_at 200 0 RED \<noteq> light_at 100 0 GREEN" by (simp add: light_at_def)
  from get_closest_light_minimal_last [of ?lts euler_east origin_pose "light_at 100 0 GREEN"] h
  obtain pre post where pp: "?lts = pre @ light_at 100 0 GREEN # post"
    and le: "\<forall>c\<in>set pre. candidate (yaw_of euler_east origin_pose)
                (position (ps_pose origin_pose)) c \<longrightarrow>
              light_dist (position (ps_pose origin_pose)) (light_at 100 0 GREEN)
                \<le> light_dist (position (ps_pose origin_pose)) c"
    by blast
  from pp ne have "light_at 200 0 RED \<in> set pre"
    by (cases pre) auto
  with le c have "light_dist (position (ps_pose origin_pose)) (light_at 100 0 GREEN)
       \<le> light_dist (position (ps_pose origin_pose)) (light_at 200 0 RED)"
    by blast
  with h show ?thesis by simp
qed

text \<open>
  C6. \<open>get_closest_light\<close> returns \<open>None\<close> when the pose is absent, when the lights are
  absent, when the list of lights is empty, and when no light passes both tests. It takes
  the pose and the lights as arguments and no detector: the source reads no attribute of
  \<open>self\<close> and writes none, so the result is a function of the arguments alone.
\<close>

theorem get_closest_light_None_cases:
  "get_closest_light efq None ls = None
   \<and> get_closest_light efq p None = None
   \<and> get_closest_light efq p (Some []) = None
   \<and> ((\<forall>c\<in>set lts. \<not> candidate (yaw_of efq ps) (position (ps_pose ps)) c) \<longrightarrow>
        get_closest_light efq (Some ps) (Some lts) = None)"
  using get_closest_light_None [of efq ps lts]
  by (simp add: get_closest_light_def split: option.splits)

text \<open>
  C6, at a concrete input: a single light 10 ahead, closer than \<open>MIN_LIGHTS_DISTANCE\<close>,
  is not selected.
\<close>

theorem get_closest_light_None_cases_witness:
  "\<not> candidate (yaw_of euler_east origin_pose) (position (ps_pose origin_pose)) (light_at 10 0 RED)
   \<and> get_closest_light euler_east (Some origin_pose) (Some [light_at 10 0 RED]) = None
   \<and> get_closest_light euler_east None (Some [light_at 100 0 RED]) = None
   \<and> get_closest_light euler_east (Some origin_pose) None = None
   \<and> get_closest_light euler_east (Some origin_pose) (Some []) = None"
proof -
  have n: "\<not> candidate (yaw_of euler_east origin_pose) (position (ps_pose origin_pose))
             (light_at 10 0 RED)"
    by (simp add: yaw_origin candidate_ahead)
  show ?thesis
    using n get_closest_light_None_cases
      [of euler_east "Some [light_at 100 0 RED]" "Some origin_pose" "[light_at 10 0 RED]"
          origin_pose]
    by simp
qed

section \<open>The claims about locating the stop waypoint and processing a frame\<close>

text \<open>
  C7. Every call of \<open>process_traffic_lights\<close> returns the pair \<open>(- 1, UNKNOWN)\<close>: the
  branch under \<open>if light\<close> is never taken, so neither a classified state nor a located
  waypoint is produced (and the call leaves the detector with its waypoints cleared).
\<close>

theorem process_traffic_lights_degenerate:
  "process_traffic_lights self = Inr ((- 1, UNKNOWN), self\<lparr>waypoints := None\<rparr>)"
  by (simp add: process_traffic_lights_def)

text \<open>
  C8, as the specification states it, fails: with no waypoints received the lookup
  returns an index, it does not fail.
\<close>

theorem get_closest_waypoint_no_waypoints_returns:
  "waypoints (TLDetector_init example_config) = None
   \<and> get_closest_waypoint (TLDetector_init example_config) (ps_pose origin_pose) = 0"
  by (simp add: get_closest_waypoint_def TLDetector_init_def)

text \<open>
  C8, amended. When the waypoint sequence is empty or has not been received,
  \<open>get_closest_waypoint\<close> does not fail: it returns index 0. The detector has no
  error for missing waypoints.
\<close>

theorem get_closest_waypoint_without_waypoints:
  "waypoints self = None \<or> waypoints self = Some [] \<Longrightarrow> get_closest_waypoint self p = 0"
  by (simp add: get_closest_waypoint_def)

text \<open>C8 amended, at a concrete input: a detector whose waypoint list is empty.\<close>

theorem get_closest_waypoint_without_waypoints_witness:
  "waypoints (waypoints_cb (TLDetector_init example_config) []) = Some []
   \<and> get_closest_waypoint (waypoints_cb (TLDetector_init example_config) []) (ps_pose origin_pose) = 0"
proof -
  have h: "waypoints (waypoints_cb (TLDetector_init example_config) []) = Some []"
    by (simp add: waypoints_cb_def)
  show ?thesis
    using h get_closest_waypoint_without_waypoints
      [of "waypoints_cb (TLDetector_init example_config) []" "ps_pose origin_pose"]
    by simp
qed

text \<open>
  C9. For every pose, and whatever waypoints the detector has cached,
  \<open>get_closest_waypoint\<close> returns index 0.
\<close>

theorem get_closest_waypoint_zero:
  "get_closest_waypoint self p = 0"
  by (simp add: get_closest_waypoint_def)

text \<open>
  C10. A call of \<open>process_traffic_lights\<close> that returns \<open>(- 1, UNKNOWN)\<close> leaves the
  cached waypoints at \<open>None\<close> and the cached pose, lights and camera image as they were;
  so a route stored by \<open>waypoints_cb\<close> is gone after the next camera frame, which
  \<open>image_cb\<close> always completes.
\<close>

theorem process_traffic_lights_clears_waypoints:
  "(process_traffic_lights self = Inr ((- 1, UNKNOWN), self1) \<longrightarrow>
      waypoints self1 = None \<and> pose self1 = pose self \<and> lights self1 = lights self
      \<and> camera_image self1 = camera_image self)
   \<and> (\<exists>self2. image_cb efq (waypoints_cb self wps) msg = Inr self2 \<and> waypoints self2 = None)"
  by (auto simp: process_traffic_lights_def image_cb_def Let_def debounce_waypoints
      split: option.splits)

text \<open>
  C10, at a concrete input: a route of one waypoint received before the first frame.
\<close>

theorem process_traffic_lights_clears_waypoints_witness:
  "process_traffic_lights (waypoints_cb (TLDetector_init example_config) [origin_pose])
     = Inr ((- 1, UNKNOWN), TLDetector_init example_config)
   \<and> waypoints (waypoints_cb (TLDetector_init example_config) [origin_pose]) = Some [origin_pose]
   \<and> waypoints (TLDetector_init example_config) = None
   \<and> pose (TLDetector_init example_config)
       = pose (waypoints_cb (TLDetector_init example_config) [origin_pose])"
proof -
  have h: "process_traffic_lights (waypoints_cb (TLDetector_init example_config) [origin_pose])
     = Inr ((- 1, UNKNOWN), TLDetector_init example_config)"
    by (simp add: process_traffic_lights_def waypoints_cb_def TLDetector_init_def)
  show ?thesis
    using h process_traffic_lights_clears_waypoints
      [of "waypoints_cb (TLDetector_init example_config) [origin_pose]"
          "TLDetector_init example_config"]
    by (simp add: waypoints_cb_def)
qed

end
